theory Spec2Isabelle
  imports Main
begin

section \<open>Data model\<close>

text \<open>
  \<^verbatim>\<open>app/models/server.py\<close>: the status enumeration. \<open>status_value\<close> is the
  enum member's \<^verbatim>\<open>.value\<close>.
\<close>

datatype ServerStatus =
  BUILD | ACTIVE | SHUTOFF | REBOOT | RESIZE | VERIFY_RESIZE | ERROR | DELETED

fun status_value :: "ServerStatus \<Rightarrow> string" where
  "status_value BUILD = ''BUILD''"
| "status_value ACTIVE = ''ACTIVE''"
| "status_value SHUTOFF = ''SHUTOFF''"
| "status_value REBOOT = ''REBOOT''"
| "status_value RESIZE = ''RESIZE''"
| "status_value VERIFY_RESIZE = ''VERIFY_RESIZE''"
| "status_value ERROR = ''ERROR''"
| "status_value DELETED = ''DELETED''"

text \<open>
  A row of the \<^verbatim>\<open>servers\<close> table. Timestamps are points in time as integers; both
  columns are declared \<^verbatim>\<open>nullable=False\<close> with a server default, so a stored row
  always carries them. The dataclass \<^verbatim>\<open>ServerRecord\<close> of
  \<^verbatim>\<open>app/infra/openstack/base.py\<close> has the same eight fields.
\<close>

record Server =
  s_id :: string
  s_name :: string
  s_status :: ServerStatus
  s_flavor_id :: string
  s_image_id :: string
  s_ip_address :: "string option"
  s_created_at :: int
  s_updated_at :: int

type_synonym ServerRecord = Server

record Flavor =
  f_id :: string
  f_name :: string
  f_vcpus :: int
  f_ram_mb :: int
  f_disk_gb :: int

type_synonym FlavorRecord = Flavor

record Image =
  i_id :: string
  i_name :: string
  i_os_distro :: string
  i_min_disk_gb :: int
  i_size_bytes :: int
  i_status :: string

type_synonym ImageRecord = Image

text \<open>
  The database behind the session: three tables, each a list of rows in insertion
  order. \<^verbatim>\<open>id\<close> is the primary key of every table.
\<close>

record db =
  servers :: "Server list"
  flavors :: "Flavor list"
  images :: "Image list"

subsection \<open>Request schemas (\<^verbatim>\<open>app/schemas/server.py\<close>)\<close>

record ServerCreate =
  c_name :: string
  c_flavor_id :: string
  c_image_id :: string

record ServerUpdate =
  u_name :: "string option"

record ServerAction =
  action :: string
  a_flavor_id :: "string option"

subsection \<open>Errors (\<^verbatim>\<open>app/core/exceptions.py\<close>)\<close>

text \<open>
  The five application exceptions with their constructor arguments, the
  \<^verbatim>\<open>ValueError\<close> that the mock backend raises, the request validation error of the
  schema layer, the database's integrity error on a duplicate primary key and the
  \<^verbatim>\<open>OverflowError\<close> of the database driver for an integer parameter beyond 64 bits.
  The last four are no application exceptions: the handlers answer a validation error
  with 422 and any other exception with 500 and the code \<^verbatim>\<open>INTERNAL_ERROR\<close>.
\<close>

datatype error =
    ServerNotFoundError string
  | FlavorNotFoundError string
  | ImageNotFoundError string
  | InvalidStateTransitionError string string
  | ServerDeletedError string
  | ValueError
  | ValidationError
  | IntegrityError
  | OverflowError

fun status_code :: "error \<Rightarrow> nat" where
  "status_code (ServerNotFoundError _) = 404"
| "status_code (FlavorNotFoundError _) = 404"
| "status_code (ImageNotFoundError _) = 404"
| "status_code (InvalidStateTransitionError _ _) = 409"
| "status_code (ServerDeletedError _) = 409"
| "status_code ValidationError = 422"
| "status_code ValueError = 500"
| "status_code IntegrityError = 500"
| "status_code OverflowError = 500"

fun error_code :: "error \<Rightarrow> string" where
  "error_code (ServerNotFoundError _) = ''SERVER_NOT_FOUND''"
| "error_code (FlavorNotFoundError _) = ''FLAVOR_NOT_FOUND''"
| "error_code (ImageNotFoundError _) = ''IMAGE_NOT_FOUND''"
| "error_code (InvalidStateTransitionError _ _) = ''INVALID_STATE_TRANSITION''"
| "error_code (ServerDeletedError _) = ''SERVER_DELETED''"
| "error_code ValidationError = ''VALIDATION_ERROR''"
| "error_code ValueError = ''INTERNAL_ERROR''"
| "error_code IntegrityError = ''INTERNAL_ERROR''"
| "error_code OverflowError = ''INTERNAL_ERROR''"

text \<open>
  \<^verbatim>\<open>details\<close> of an application exception: a dictionary (here an association list)
  for \<^verbatim>\<open>InvalidStateTransitionError\<close>, \<^verbatim>\<open>None\<close> for the others.
\<close>

fun details :: "error \<Rightarrow> (string \<times> string) list option" where
  "details (InvalidStateTransitionError current_status act) =
     Some [(''current_status'', current_status), (''action'', act)]"
| "details _ = None"

section \<open>Python helpers\<close>

text \<open>\<^verbatim>\<open>d.get(k, default)\<close> on a dictionary held as an association list.\<close>

definition dict_get :: "('k \<times> 'v) list \<Rightarrow> 'k \<Rightarrow> 'v \<Rightarrow> 'v" where
  "dict_get d k dflt = (case map_of d k of None \<Rightarrow> dflt | Some v \<Rightarrow> v)"

text \<open>\<^verbatim>\<open>k in d\<close>.\<close>

definition dict_in :: "'k \<Rightarrow> ('k \<times> 'v) list \<Rightarrow> bool" where
  "dict_in k d = (map_of d k \<noteq> None)"

text \<open>Truthiness of a \<^verbatim>\<open>str | None\<close>: \<^verbatim>\<open>None\<close> and the empty string are falsy.\<close>

fun truthy :: "string option \<Rightarrow> bool" where
  "truthy None = False"
| "truthy (Some s) = (s \<noteq> [])"

text \<open>
  \<^verbatim>\<open>random.randint(a, b)\<close> returns an integer between \<open>a\<close> and \<open>b\<close>, both
  included; \<open>r\<close> is the entropy the generator draws.
\<close>

definition randint :: "nat \<Rightarrow> nat \<Rightarrow> nat \<Rightarrow> nat" where
  "randint a b r = a + r mod (b - a + 1)"

text \<open>\<^verbatim>\<open>str\<close> of a non-negative integer, in decimal.\<close>

fun str_nat :: "nat \<Rightarrow> string" where
  "str_nat n =
     (if n < 10 then [''0123456789'' ! n]
      else str_nat (n div 10) @ [''0123456789'' ! (n mod 10)])"

declare str_nat.simps [simp del]

text \<open>\<^verbatim>\<open>str(ipaddress.IPv4Address(n))\<close>: the four octets, most significant first.\<close>

definition str_IPv4Address :: "nat \<Rightarrow> string" where
  "str_IPv4Address n =
     str_nat (n div 2 ^ 24 mod 256) @ ''.'' @ str_nat (n div 2 ^ 16 mod 256) @ ''.'' @
     str_nat (n div 2 ^ 8 mod 256) @ ''.'' @ str_nat (n mod 256)"

section \<open>Mock compute backend (\<^verbatim>\<open>app/infra/openstack/mock_client.py\<close>)\<close>

text \<open>
  \<^verbatim>\<open>_server_to_record\<close> copies the eight fields; its fallback to the current time
  applies to a missing timestamp only, which a stored row never has.
\<close>

definition server_to_record :: "Server \<Rightarrow> ServerRecord" where
  "server_to_record server =
     \<lparr>s_id = s_id server, s_name = s_name server, s_status = s_status server,
      s_flavor_id = s_flavor_id server, s_image_id = s_image_id server,
      s_ip_address = s_ip_address server, s_created_at = s_created_at server,
      s_updated_at = s_updated_at server\<rparr>"

definition flavor_to_record :: "Flavor \<Rightarrow> FlavorRecord" where
  "flavor_to_record flavor =
     \<lparr>f_id = f_id flavor, f_name = f_name flavor, f_vcpus = f_vcpus flavor,
      f_ram_mb = f_ram_mb flavor, f_disk_gb = f_disk_gb flavor\<rparr>"

definition image_to_record :: "Image \<Rightarrow> ImageRecord" where
  "image_to_record img =
     \<lparr>i_id = i_id img, i_name = i_name img, i_os_distro = i_os_distro img,
      i_min_disk_gb = i_min_disk_gb img, i_size_bytes = i_size_bytes img,
      i_status = i_status img\<rparr>"

text \<open>\<^verbatim>\<open>_random_ip\<close>: a random address between 10.0.0.1 and 10.255.255.255.\<close>

definition random_ip :: "nat \<Rightarrow> string" where
  "random_ip r = str_IPv4Address (randint 0x0A000001 0x0AFFFFFF r)"

text \<open>The backend's own table, \<^verbatim>\<open>_ACTION_TRANSITIONS\<close>.\<close>

definition ACTION_TRANSITIONS :: "(ServerStatus \<times> (string \<times> ServerStatus) list) list" where
  "ACTION_TRANSITIONS =
     [(ACTIVE, [(''stop'', SHUTOFF), (''reboot'', ACTIVE), (''resize'', ACTIVE)]),
      (SHUTOFF, [(''start'', ACTIVE)])]"

text \<open>
  \<^verbatim>\<open>select(Server).where(Server.id == server_id)\<close> followed by
  \<^verbatim>\<open>scalar_one_or_none()\<close>: the row with that primary key, if any.
\<close>

definition select_server :: "db \<Rightarrow> string \<Rightarrow> Server option" where
  "select_server d server_id = find (\<lambda>s. s_id s = server_id) (servers d)"

text \<open>Writing back the row that was selected (the flush of the mutated object).\<close>

fun replace_row :: "string \<Rightarrow> Server \<Rightarrow> Server list \<Rightarrow> Server list" where
  "replace_row server_id new [] = []"
| "replace_row server_id new (s # ss) =
     (if s_id s = server_id then new # ss else s # replace_row server_id new ss)"

definition flush_server :: "string \<Rightarrow> Server \<Rightarrow> db \<Rightarrow> db" where
  "flush_server server_id new d = d\<lparr>servers := replace_row server_id new (servers d)\<rparr>"

text \<open>
  \<^verbatim>\<open>create_server\<close>: \<open>uuid\<close> is the result of \<^verbatim>\<open>uuid.uuid4()\<close>, \<open>r\<close> the entropy of
  \<^verbatim>\<open>_random_ip\<close>, \<open>now\<close> the database's clock, which fills both timestamp columns
  on insert. A primary key that is already taken makes the flush fail.
\<close>

definition Mock_create_server ::
  "string \<Rightarrow> nat \<Rightarrow> int \<Rightarrow> string \<Rightarrow> string \<Rightarrow> string \<Rightarrow> db \<Rightarrow> (error + ServerRecord) \<times> db" where
  "Mock_create_server uuid r now name flavor_id image_id d =
     (let server = \<lparr>s_id = uuid, s_name = name, s_status = ACTIVE, s_flavor_id = flavor_id,
                    s_image_id = image_id, s_ip_address = Some (random_ip r),
                    s_created_at = now, s_updated_at = now\<rparr>
      in if select_server d uuid \<noteq> None then (Inl IntegrityError, d)
         else (Inr (server_to_record server), d\<lparr>servers := servers d @ [server]\<rparr>))"

definition Mock_get_server :: "db \<Rightarrow> string \<Rightarrow> ServerRecord option" where
  "Mock_get_server d server_id =
     (case select_server d server_id of
        None \<Rightarrow> None
      | Some server \<Rightarrow> Some (server_to_record server))"

text \<open>
  \<^verbatim>\<open>list_servers\<close>: first the count of the rows that are not DELETED, then those
  rows ordered by \<^verbatim>\<open>created_at\<close> descending, cut to the window. Rows with equal
  timestamps keep their table order. \<open>limit\<close> and \<open>offset\<close> are natural numbers:
  the query parameters are validated to \<open>limit \<ge> 1\<close> and \<open>offset \<ge> 0\<close>. Both
  are bound as parameters of the second query; the database (SQLite) holds signed
  64-bit integers, and binding a larger one raises \<^verbatim>\<open>OverflowError\<close>.
\<close>

definition Mock_list_servers ::
  "nat \<Rightarrow> nat \<Rightarrow> db \<Rightarrow> error + (ServerRecord list \<times> nat)" where
  "Mock_list_servers limit offset d =
     (let tot = length (filter (\<lambda>s. s_status s \<noteq> DELETED) (servers d))
      in if 2 ^ 63 \<le> limit \<or> 2 ^ 63 \<le> offset then Inl OverflowError
         else
           (let rows = take limit (drop offset
                         (sort_key (\<lambda>s. - s_created_at s)
                            (filter (\<lambda>s. s_status s \<noteq> DELETED) (servers d))))
            in Inr (map server_to_record rows, tot)))"

definition Mock_update_server ::
  "int \<Rightarrow> string \<Rightarrow> string \<Rightarrow> db \<Rightarrow> (error + ServerRecord) \<times> db" where
  "Mock_update_server now server_id name d =
     (case select_server d server_id of
        None \<Rightarrow> (Inl ValueError, d)
      | Some server \<Rightarrow>
          (let server' = server\<lparr>s_name := name, s_updated_at := now\<rparr>
           in (Inr (server_to_record server'), flush_server server_id server' d)))"

definition Mock_delete_server :: "int \<Rightarrow> string \<Rightarrow> db \<Rightarrow> (error + unit) \<times> db" where
  "Mock_delete_server now server_id d =
     (case select_server d server_id of
        None \<Rightarrow> (Inl ValueError, d)
      | Some server \<Rightarrow>
          (let server' = server\<lparr>s_status := DELETED, s_updated_at := now\<rparr>
           in (Inr (), flush_server server_id server' d)))"

text \<open>\<open>kwargs\<close> is the keyword dictionary, an association list from names to values.\<close>

definition Mock_perform_action ::
  "int \<Rightarrow> string \<Rightarrow> string \<Rightarrow> (string \<times> string) list \<Rightarrow> db \<Rightarrow> (error + ServerRecord) \<times> db" where
  "Mock_perform_action now server_id act kwargs d =
     (case select_server d server_id of
        None \<Rightarrow> (Inl ValueError, d)
      | Some server \<Rightarrow>
          (let transitions = dict_get ACTION_TRANSITIONS (s_status server) []
           in case map_of transitions act of
                None \<Rightarrow> (Inl ValueError, d)
              | Some new_status \<Rightarrow>
                  (let server1 = server\<lparr>s_status := new_status\<rparr>;
                       server2 = (if act = ''resize'' \<and> dict_in ''flavor_id'' kwargs
                                  then server1\<lparr>s_flavor_id := dict_get kwargs ''flavor_id'' []\<rparr>
                                  else server1);
                       server3 = server2\<lparr>s_updated_at := now\<rparr>
                   in (Inr (server_to_record server3), flush_server server_id server3 d))))"

definition Mock_get_flavor :: "db \<Rightarrow> string \<Rightarrow> FlavorRecord option" where
  "Mock_get_flavor d flavor_id =
     (case find (\<lambda>f. f_id f = flavor_id) (flavors d) of
        None \<Rightarrow> None
      | Some flavor \<Rightarrow> Some (flavor_to_record flavor))"

definition Mock_get_image :: "db \<Rightarrow> string \<Rightarrow> ImageRecord option" where
  "Mock_get_image d image_id =
     (case find (\<lambda>i. i_id i = image_id) (images d) of
        None \<Rightarrow> None
      | Some img \<Rightarrow> Some (image_to_record img))"

section \<open>Server service (\<^verbatim>\<open>app/services/server_service.py\<close>)\<close>

definition VALID_TRANSITIONS :: "(ServerStatus \<times> (string \<times> ServerStatus) list) list" where
  "VALID_TRANSITIONS =
     [(ACTIVE, [(''stop'', SHUTOFF), (''reboot'', ACTIVE), (''resize'', ACTIVE)]),
      (SHUTOFF, [(''start'', ACTIVE)]),
      (BUILD, []),
      (REBOOT, []),
      (RESIZE, []),
      (VERIFY_RESIZE, [(''confirm_resize'', ACTIVE)])]"

definition ServerService_create ::
  "string \<Rightarrow> nat \<Rightarrow> int \<Rightarrow> ServerCreate \<Rightarrow> db \<Rightarrow> (error + ServerRecord) \<times> db" where
  "ServerService_create uuid r now payload d =
     (case Mock_get_flavor d (c_flavor_id payload) of
        None \<Rightarrow> (Inl (FlavorNotFoundError (c_flavor_id payload)), d)
      | Some flavor \<Rightarrow>
          (case Mock_get_image d (c_image_id payload) of
             None \<Rightarrow> (Inl (ImageNotFoundError (c_image_id payload)), d)
           | Some img \<Rightarrow>
               Mock_create_server uuid r now (c_name payload) (c_flavor_id payload)
                 (c_image_id payload) d))"

definition ServerService_get :: "string \<Rightarrow> db \<Rightarrow> error + ServerRecord" where
  "ServerService_get server_id d =
     (case Mock_get_server d server_id of
        None \<Rightarrow> Inl (ServerNotFoundError server_id)
      | Some server \<Rightarrow>
          if s_status server = DELETED then Inl (ServerNotFoundError server_id)
          else Inr server)"

definition ServerService_list ::
  "nat \<Rightarrow> nat \<Rightarrow> db \<Rightarrow> error + (ServerRecord list \<times> nat)" where
  "ServerService_list limit offset d = Mock_list_servers limit offset d"

definition ServerService_update ::
  "int \<Rightarrow> string \<Rightarrow> ServerUpdate \<Rightarrow> db \<Rightarrow> (error + ServerRecord) \<times> db" where
  "ServerService_update now server_id payload d =
     (case Mock_get_server d server_id of
        None \<Rightarrow> (Inl (ServerNotFoundError server_id), d)
      | Some server \<Rightarrow>
          if s_status server = DELETED then (Inl (ServerDeletedError server_id), d)
          else
            (let name = (case u_name payload of Some n \<Rightarrow> n | None \<Rightarrow> s_name server)
             in Mock_update_server now server_id name d))"

definition ServerService_delete :: "int \<Rightarrow> string \<Rightarrow> db \<Rightarrow> (error + unit) \<times> db" where
  "ServerService_delete now server_id d =
     (case Mock_get_server d server_id of
        None \<Rightarrow> (Inl (ServerNotFoundError server_id), d)
      | Some server \<Rightarrow>
          if s_status server = DELETED then (Inl (ServerNotFoundError server_id), d)
          else Mock_delete_server now server_id d)"

definition ServerService_perform_action ::
  "int \<Rightarrow> string \<Rightarrow> ServerAction \<Rightarrow> db \<Rightarrow> (error + ServerRecord) \<times> db" where
  "ServerService_perform_action now server_id payload d =
     (case Mock_get_server d server_id of
        None \<Rightarrow> (Inl (ServerNotFoundError server_id), d)
      | Some server \<Rightarrow>
          if s_status server = DELETED then (Inl (ServerNotFoundError server_id), d)
          else
            (let allowed = dict_get VALID_TRANSITIONS (s_status server) []
             in if \<not> dict_in (action payload) allowed
                then (Inl (InvalidStateTransitionError (status_value (s_status server))
                             (action payload)), d)
                else if action payload = ''resize'' \<and> truthy (a_flavor_id payload)
                then (case Mock_get_flavor d (the (a_flavor_id payload)) of
                        None \<Rightarrow> (Inl (FlavorNotFoundError (the (a_flavor_id payload))), d)
                      | Some flavor \<Rightarrow>
                          Mock_perform_action now server_id (action payload)
                            [(''flavor_id'', the (a_flavor_id payload))] d)
                else Mock_perform_action now server_id (action payload) [] d))"

section \<open>Request validation and response shaping\<close>

text \<open>\<^verbatim>\<open>ActionType = Literal["start", "stop", "reboot", "resize"]\<close>.\<close>

definition ActionType :: "string list" where
  "ActionType = [''start'', ''stop'', ''reboot'', ''resize'']"

text \<open>
  The model validator of \<^verbatim>\<open>ServerAction\<close>; the \<^verbatim>\<open>ValueError\<close> it raises reaches the
  caller as a validation error.
\<close>

definition validate_resize_requires_flavor :: "ServerAction \<Rightarrow> error + ServerAction" where
  "validate_resize_requires_flavor self =
     (if action self = ''resize'' \<and> \<not> truthy (a_flavor_id self) then Inl ValidationError
      else if action self \<noteq> ''resize'' \<and> a_flavor_id self \<noteq> None then Inl ValidationError
      else Inr self)"

text \<open>
  Building a \<^verbatim>\<open>ServerAction\<close> from a request body: the field check against
  \<^verbatim>\<open>ActionType\<close>, then the model validator.
\<close>

definition ServerAction_validate :: "string \<Rightarrow> string option \<Rightarrow> error + ServerAction" where
  "ServerAction_validate act fid =
     (if act \<notin> set ActionType then Inl ValidationError
      else validate_resize_requires_flavor \<lparr>action = act, a_flavor_id = fid\<rparr>)"

text \<open>
  \<^verbatim>\<open>PaginationParams\<close> (\<^verbatim>\<open>app/core/pagination.py\<close>): \<^verbatim>\<open>limit\<close> with \<^verbatim>\<open>ge=1, le=100\<close>,
  \<^verbatim>\<open>offset\<close> with \<^verbatim>\<open>ge=0\<close>.
\<close>

definition PaginationParams :: "int \<Rightarrow> int \<Rightarrow> error + (nat \<times> nat)" where
  "PaginationParams limit offset =
     (if limit < 1 \<or> 100 < limit \<or> offset < 0 then Inl ValidationError
      else Inr (nat limit, nat offset))"

text \<open>\<^verbatim>\<open>PaginatedResponse\<close> and its \<^verbatim>\<open>build\<close> (\<^verbatim>\<open>app/schemas/common.py\<close>).\<close>

record 'a PaginatedResponse =
  p_items :: "'a list"
  p_total :: int
  p_limit :: int
  p_offset :: int
  p_next_offset :: "int option"

definition PaginatedResponse_build ::
  "'a list \<Rightarrow> int \<Rightarrow> int \<Rightarrow> int \<Rightarrow> 'a PaginatedResponse" where
  "PaginatedResponse_build items tot limit offset =
     (let next_offset = (if offset + limit < tot then Some (offset + limit) else None)
      in \<lparr>p_items = items, p_total = tot, p_limit = limit, p_offset = offset,
          p_next_offset = next_offset\<rparr>)"

subsection \<open>Endpoints (\<^verbatim>\<open>app/api/v1/endpoints/servers.py\<close>)\<close>

text \<open>
  \<^verbatim>\<open>GET /servers\<close>: the validated window, the service's page and total, and the
  paginated response built from them. (\<^verbatim>\<open>_to_response\<close> copies the record's fields.)
\<close>

definition list_servers :: "int \<Rightarrow> int \<Rightarrow> db \<Rightarrow> error + ServerRecord PaginatedResponse" where
  "list_servers limit offset d =
     (case PaginationParams limit offset of
        Inl e \<Rightarrow> Inl e
      | Inr (lim, off) \<Rightarrow>
          (case ServerService_list lim off d of
             Inl e \<Rightarrow> Inl e
           | Inr (records, tot) \<Rightarrow>
               Inr (PaginatedResponse_build records (int tot) (int lim) (int off))))"

text \<open>\<^verbatim>\<open>POST /servers/{id}/action\<close>: the body is validated before the service is called.\<close>

definition server_action ::
  "int \<Rightarrow> string \<Rightarrow> string \<Rightarrow> string option \<Rightarrow> db \<Rightarrow> (error + ServerRecord) \<times> db" where
  "server_action now server_id act fid d =
     (case ServerAction_validate act fid of
        Inl e \<Rightarrow> (Inl e, d)
      | Inr payload \<Rightarrow> ServerService_perform_action now server_id payload d)"

section \<open>Sample data\<close>

text \<open>A small catalog and server table, in the shape of the test fixtures.\<close>

definition sample_flavors :: "Flavor list" where
  "sample_flavors =
     [\<lparr>f_id = ''f1'', f_name = ''m1.tiny'', f_vcpus = 1, f_ram_mb = 512, f_disk_gb = 1\<rparr>,
      \<lparr>f_id = ''f2'', f_name = ''m1.small'', f_vcpus = 1, f_ram_mb = 2048, f_disk_gb = 20\<rparr>]"

definition sample_images :: "Image list" where
  "sample_images =
     [\<lparr>i_id = ''i1'', i_name = ''Debian 12'', i_os_distro = ''debian'', i_min_disk_gb = 8,
       i_size_bytes = 1000, i_status = ''active''\<rparr>]"

definition sample_server :: "string \<Rightarrow> ServerStatus \<Rightarrow> int \<Rightarrow> Server" where
  "sample_server sid st created =
     \<lparr>s_id = sid, s_name = ''vm'', s_status = st, s_flavor_id = ''f1'', s_image_id = ''i1'',
      s_ip_address = Some ''10.0.0.7'', s_created_at = created, s_updated_at = created\<rparr>"

text \<open>A store that holds one server under a version-4 UUID.\<close>

definition sample_uuid :: string where
  "sample_uuid = ''0b0e7d3a-5c1f-4a56-9d2e-3f8a1c2b4d5e''"

definition sample_db_uuid :: db where
  "sample_db_uuid =
     \<lparr>servers = [sample_server sample_uuid ACTIVE 10],
      flavors = sample_flavors, images = sample_images\<rparr>"

definition sample_db :: db where
  "sample_db =
     \<lparr>servers = [sample_server ''s1'' ACTIVE 10, sample_server ''s2'' SHUTOFF 30,
                 sample_server ''s3'' DELETED 20, sample_server ''s4'' VERIFY_RESIZE 5,
                 sample_server ''s5'' BUILD 40],
      flavors = sample_flavors, images = sample_images\<rparr>"

section \<open>Basic facts about the store\<close>

lemma server_to_record_eq: "server_to_record s = s"
  by (simp add: server_to_record_def)

lemma Mock_get_server_eq: "Mock_get_server d i = select_server d i"
  by (simp add: Mock_get_server_def server_to_record_eq split: option.split)

lemma find_by_id: "find (\<lambda>s. s_id s = i) ss = Some s \<Longrightarrow> s_id s = i \<and> s \<in> set ss"
  by (induction ss) (auto split: if_splits)

lemma select_server_id: "select_server d i = Some s \<Longrightarrow> s_id s = i \<and> s \<in> set (servers d)"
  unfolding select_server_def by (rule find_by_id)

lemma find_replace_row:
  "find (\<lambda>s. s_id s = i) ss = Some s \<Longrightarrow> s_id new = i \<Longrightarrow>
   find (\<lambda>s. s_id s = i) (replace_row i new ss) = Some new"
  by (induction ss) (auto split: if_splits)

lemma select_flush:
  "select_server d i = Some s \<Longrightarrow> s_id new = i \<Longrightarrow>
   select_server (flush_server i new d) i = Some new"
  by (simp add: select_server_def flush_server_def find_replace_row)

lemma map_server_to_record: "map server_to_record xs = xs"
  by (induction xs) (simp_all add: server_to_record_eq)

text \<open>
  The listing: within the 64-bit range it is the window cut from the servers that are
  not DELETED, newest first, with their number; beyond it, the driver's error.
\<close>

lemma ServerService_list_ok:
  "limit < 2 ^ 63 \<Longrightarrow> offset < 2 ^ 63 \<Longrightarrow>
   ServerService_list limit offset d =
     Inr (take limit (drop offset
            (sort_key (\<lambda>s. - s_created_at s)
               (filter (\<lambda>s. s_status s \<noteq> DELETED) (servers d)))),
          length (filter (\<lambda>s. s_status s \<noteq> DELETED) (servers d)))"
  by (simp add: ServerService_list_def Mock_list_servers_def Let_def map_server_to_record)

lemma ServerService_list_overflow:
  "2 ^ 63 \<le> limit \<or> 2 ^ 63 \<le> offset \<Longrightarrow>
   ServerService_list limit offset d = Inl OverflowError"
  by (simp add: ServerService_list_def Mock_list_servers_def Let_def)

lemma ServerService_list_Inr:
  assumes "ServerService_list limit offset d = Inr (records, n)"
  shows "limit < 2 ^ 63 \<and> offset < 2 ^ 63 \<and>
         records = take limit (drop offset
            (sort_key (\<lambda>s. - s_created_at s)
               (filter (\<lambda>s. s_status s \<noteq> DELETED) (servers d)))) \<and>
         n = length (filter (\<lambda>s. s_status s \<noteq> DELETED) (servers d))"
proof (cases "2 ^ 63 \<le> limit \<or> 2 ^ 63 \<le> offset")
  case True
  then show ?thesis using assms ServerService_list_overflow [OF True, of d] by simp
next
  case False
  then have r: "limit < 2 ^ 63" "offset < 2 ^ 63" by simp_all
  show ?thesis using assms r unfolding ServerService_list_ok [OF r] by auto
qed

text \<open>The two transition tables, status by status.\<close>

lemma VALID_TRANSITIONS_get:
  "dict_get VALID_TRANSITIONS st [] =
     (case st of
        ACTIVE \<Rightarrow> [(''stop'', SHUTOFF), (''reboot'', ACTIVE), (''resize'', ACTIVE)]
      | SHUTOFF \<Rightarrow> [(''start'', ACTIVE)]
      | VERIFY_RESIZE \<Rightarrow> [(''confirm_resize'', ACTIVE)]
      | _ \<Rightarrow> [])"
  by (cases st) (simp_all add: VALID_TRANSITIONS_def dict_get_def)

lemma ACTION_TRANSITIONS_get:
  "dict_get ACTION_TRANSITIONS st [] =
     (case st of
        ACTIVE \<Rightarrow> [(''stop'', SHUTOFF), (''reboot'', ACTIVE), (''resize'', ACTIVE)]
      | SHUTOFF \<Rightarrow> [(''start'', ACTIVE)]
      | _ \<Rightarrow> [])"
  by (cases st) (simp_all add: ACTION_TRANSITIONS_def dict_get_def)

text \<open>The backend's table agrees with the service's on every action but \<^verbatim>\<open>confirm_resize\<close>.\<close>

lemma transitions_mirror:
  "a \<noteq> ''confirm_resize'' \<Longrightarrow>
   map_of (dict_get ACTION_TRANSITIONS st []) a = map_of (dict_get VALID_TRANSITIONS st []) a"
  by (cases st) (simp_all add: VALID_TRANSITIONS_get ACTION_TRANSITIONS_get)

text \<open>The rows of the service's table whose action the request schema admits.\<close>

lemma schema_table_rows:
  "(map_of (dict_get VALID_TRANSITIONS st []) act = Some nxt \<and> act \<in> set ActionType) =
   ((st, act, nxt) \<in> {(ACTIVE, ''stop'', SHUTOFF), (ACTIVE, ''reboot'', ACTIVE),
                        (ACTIVE, ''resize'', ACTIVE), (SHUTOFF, ''start'', ACTIVE)})"
  by (cases st) (auto simp: VALID_TRANSITIONS_get ActionType_def split: if_splits)

lemma ActionType_not_confirm: "a \<in> set ActionType \<Longrightarrow> a \<noteq> ''confirm_resize''"
  by (auto simp: ActionType_def)

lemma Mock_perform_action_ok:
  assumes "select_server d i = Some server"
    and "map_of (dict_get ACTION_TRANSITIONS (s_status server) []) act = Some ns"
  shows "Mock_perform_action now i act kw d =
     (Inr ((if act = ''resize'' \<and> dict_in ''flavor_id'' kw
            then server\<lparr>s_status := ns, s_flavor_id := dict_get kw ''flavor_id'' []\<rparr>
            else server\<lparr>s_status := ns\<rparr>)\<lparr>s_updated_at := now\<rparr>),
      flush_server i
        ((if act = ''resize'' \<and> dict_in ''flavor_id'' kw
          then server\<lparr>s_status := ns, s_flavor_id := dict_get kw ''flavor_id'' []\<rparr>
          else server\<lparr>s_status := ns\<rparr>)\<lparr>s_updated_at := now\<rparr>) d)"
  using assms by (simp add: Mock_perform_action_def Let_def server_to_record_eq)

text \<open>Lookups in the sample data.\<close>

lemma sample_server_sel [simp]:
  "s_status (sample_server i st c) = st" "s_id (sample_server i st c) = i"
  by (simp_all add: sample_server_def)

lemma sample_select_s1: "select_server sample_db ''s1'' = Some (sample_server ''s1'' ACTIVE 10)"
  by (simp add: select_server_def sample_db_def sample_server_def)

lemma sample_select_s3: "select_server sample_db ''s3'' = Some (sample_server ''s3'' DELETED 20)"
  by (simp add: select_server_def sample_db_def sample_server_def)

lemma sample_select_s4: "select_server sample_db ''s4'' = Some (sample_server ''s4'' VERIFY_RESIZE 5)"
  by (simp add: select_server_def sample_db_def sample_server_def)

lemma sample_select_s5: "select_server sample_db ''s5'' = Some (sample_server ''s5'' BUILD 40)"
  by (simp add: select_server_def sample_db_def sample_server_def)

lemma sample_select_none: "select_server sample_db ''zz'' = None"
  by (simp add: select_server_def sample_db_def sample_server_def)

lemma sample_get_flavor_bad: "Mock_get_flavor sample_db ''bad'' = None"
  by (simp add: Mock_get_flavor_def sample_db_def sample_flavors_def)

lemma sample_get_flavor_f2: "Mock_get_flavor sample_db ''f2'' \<noteq> None"
  by (simp add: Mock_get_flavor_def sample_db_def sample_flavors_def)

section \<open>The lifecycle state machine\<close>

text \<open>
  C1 (as amended). For an existing server that is not DELETED and an action of the
  request schema (start, stop, reboot, resize) that the transition table lists for the
  server's status, \<open>perform_action\<close> succeeds, returns the server with the table's next
  status and stores it, provided that a resize's target flavor resolves in the catalog.
  The rows in question are ACTIVE+stop to SHUTOFF, ACTIVE+reboot to ACTIVE,
  ACTIVE+resize to ACTIVE and SHUTOFF+start to ACTIVE.
\<close>

theorem perform_action_table_success:
  assumes sel: "select_server d server_id = Some server"
    and live: "s_status server \<noteq> DELETED"
    and tab: "map_of (dict_get VALID_TRANSITIONS (s_status server) []) (action payload) = Some next_status"
    and schema: "action payload \<in> set ActionType"
    and flv: "action payload = ''resize'' \<and> truthy (a_flavor_id payload) \<longrightarrow>
              Mock_get_flavor d (the (a_flavor_id payload)) \<noteq> None"
  shows "(\<exists>r. ServerService_perform_action now server_id payload d =
                (Inr r, flush_server server_id r d) \<and>
              s_status r = next_status \<and> s_id r = server_id \<and>
              select_server (flush_server server_id r d) server_id = Some r) \<and>
         (s_status server, action payload, next_status) \<in>
           {(ACTIVE, ''stop'', SHUTOFF), (ACTIVE, ''reboot'', ACTIVE),
            (ACTIVE, ''resize'', ACTIVE), (SHUTOFF, ''start'', ACTIVE)}"
proof -
  have rows: "(s_status server, action payload, next_status) \<in>
           {(ACTIVE, ''stop'', SHUTOFF), (ACTIVE, ''reboot'', ACTIVE),
            (ACTIVE, ''resize'', ACTIVE), (SHUTOFF, ''start'', ACTIVE)}"
    using tab schema schema_table_rows [of "s_status server" "action payload" next_status]
    by blast
  have nc: "action payload \<noteq> ''confirm_resize''"
    using schema by (rule ActionType_not_confirm)
  have bk: "map_of (dict_get ACTION_TRANSITIONS (s_status server) []) (action payload) = Some next_status"
    using tab transitions_mirror [OF nc] by simp
  have allowed: "dict_in (action payload) (dict_get VALID_TRANSITIONS (s_status server) [])"
    using tab by (simp add: dict_in_def)
  have sid: "s_id server = server_id"
    using select_server_id [OF sel] by simp
  have ex: "\<exists>r. ServerService_perform_action now server_id payload d =
                (Inr r, flush_server server_id r d) \<and>
              s_status r = next_status \<and> s_id r = server_id \<and>
              select_server (flush_server server_id r d) server_id = Some r"
  proof (cases "action payload = ''resize'' \<and> truthy (a_flavor_id payload)")
    case True
    then obtain flavor where fl: "Mock_get_flavor d (the (a_flavor_id payload)) = Some flavor"
      using flv by auto
    let ?r = "server\<lparr>s_status := next_status, s_flavor_id := the (a_flavor_id payload),
                      s_updated_at := now\<rparr>"
    have "ServerService_perform_action now server_id payload d = (Inr ?r, flush_server server_id ?r d)"
      using sel live allowed True fl Mock_perform_action_ok [OF sel bk]
      by (simp add: ServerService_perform_action_def Mock_get_server_eq Let_def dict_in_def dict_get_def)
    moreover have "select_server (flush_server server_id ?r d) server_id = Some ?r"
      using sel sid by (simp add: select_flush)
    ultimately show ?thesis using sid by auto
  next
    case False
    let ?r = "server\<lparr>s_status := next_status, s_updated_at := now\<rparr>"
    have "ServerService_perform_action now server_id payload d = (Inr ?r, flush_server server_id ?r d)"
      using sel live allowed False Mock_perform_action_ok [OF sel bk, of now "[]"]
      by (cases "action payload = ''resize''")
         (simp_all add: ServerService_perform_action_def Mock_get_server_eq Let_def dict_in_def)
    moreover have "select_server (flush_server server_id ?r d) server_id = Some ?r"
      using sel sid by (simp add: select_flush)
    ultimately show ?thesis using sid by auto
  qed
  from ex rows show ?thesis by (rule conjI)
qed

text \<open>The theorem at the sample data: stopping the ACTIVE server \<open>s1\<close>.\<close>

theorem perform_action_table_success_witness:
  "select_server sample_db ''s1'' = Some (sample_server ''s1'' ACTIVE 10) \<and>
   (\<exists>r. ServerService_perform_action 99 ''s1'' \<lparr>action = ''stop'', a_flavor_id = None\<rparr> sample_db =
           (Inr r, flush_server ''s1'' r sample_db) \<and>
         s_status r = SHUTOFF \<and> s_id r = ''s1'' \<and>
         select_server (flush_server ''s1'' r sample_db) ''s1'' = Some r)"
proof -
  have h1: "s_status (sample_server ''s1'' ACTIVE 10) \<noteq> DELETED" by simp
  have h2: "map_of (dict_get VALID_TRANSITIONS (s_status (sample_server ''s1'' ACTIVE 10)) [])
              (action \<lparr>action = ''stop'', a_flavor_id = None\<rparr>) = Some SHUTOFF"
    by (simp add: VALID_TRANSITIONS_get)
  have h3: "action \<lparr>action = ''stop'', a_flavor_id = None\<rparr> \<in> set ActionType"
    by (simp add: ActionType_def)
  have h4: "action \<lparr>action = ''stop'', a_flavor_id = None\<rparr> = ''resize'' \<and>
              truthy (a_flavor_id \<lparr>action = ''stop'', a_flavor_id = None\<rparr>) \<longrightarrow>
            Mock_get_flavor sample_db (the (a_flavor_id \<lparr>action = ''stop'', a_flavor_id = None\<rparr>)) \<noteq> None"
    by simp
  show ?thesis
    using perform_action_table_success [OF sample_select_s1 h1 h2 h3 h4, of 99] sample_select_s1
    by blast
qed

text \<open>
  The claim as first stated fails twice. The table lists VERIFY_RESIZE+confirm_resize,
  yet the call on a server in VERIFY_RESIZE ends in the backend's \<^verbatim>\<open>ValueError\<close>; and
  ACTIVE+resize is listed, yet a resize to an unknown flavor ends in
  \<^verbatim>\<open>FlavorNotFoundError\<close>.
\<close>

theorem perform_action_table_counterexample:
  "select_server sample_db ''s4'' = Some (sample_server ''s4'' VERIFY_RESIZE 5) \<and>
   map_of (dict_get VALID_TRANSITIONS VERIFY_RESIZE []) ''confirm_resize'' = Some ACTIVE \<and>
   ServerService_perform_action 99 ''s4'' \<lparr>action = ''confirm_resize'', a_flavor_id = None\<rparr> sample_db =
     (Inl ValueError, sample_db) \<and>
   select_server sample_db ''s1'' = Some (sample_server ''s1'' ACTIVE 10) \<and>
   map_of (dict_get VALID_TRANSITIONS ACTIVE []) ''resize'' = Some ACTIVE \<and>
   ServerService_perform_action 99 ''s1'' \<lparr>action = ''resize'', a_flavor_id = Some ''bad''\<rparr> sample_db =
     (Inl (FlavorNotFoundError ''bad''), sample_db)"
  by (simp add: sample_select_s1 sample_select_s4 VALID_TRANSITIONS_get ACTION_TRANSITIONS_get
      ServerService_perform_action_def Mock_perform_action_def Mock_get_server_eq dict_in_def
      sample_get_flavor_bad)

text \<open>Writing a row back leaves every other row as it was.\<close>

lemma find_replace_row_other:
  "s_id new = i \<Longrightarrow> j \<noteq> i \<Longrightarrow>
   find (\<lambda>s. s_id s = j) (replace_row i new ss) = find (\<lambda>s. s_id s = j) ss"
  by (induction ss) auto

lemma select_flush_other:
  "s_id new = i \<Longrightarrow> j \<noteq> i \<Longrightarrow>
   select_server (flush_server i new d) j = select_server d j"
  by (simp add: select_server_def flush_server_def find_replace_row_other)

lemma filter_removeAll_skip: "\<not> P x \<Longrightarrow> filter P (removeAll x xs) = filter P xs"
  by (induction xs) auto

text \<open>
  C2. For an existing server that is not DELETED and a (status, action) pair that the
  transition table does not list (every action on a server in BUILD, REBOOT, RESIZE or
  ERROR is such a pair), \<open>perform_action\<close> fails with
  \<^verbatim>\<open>InvalidStateTransitionError\<close>, whose details carry the current status and the
  requested action, and the store is returned unchanged.
\<close>

theorem perform_action_invalid_transition:
  assumes sel: "select_server d server_id = Some server"
    and live: "s_status server \<noteq> DELETED"
    and notab: "map_of (dict_get VALID_TRANSITIONS (s_status server) []) (action payload) = None \<or>
                s_status server \<in> {BUILD, REBOOT, RESIZE, ERROR}"
  shows "ServerService_perform_action now server_id payload d =
           (Inl (InvalidStateTransitionError (status_value (s_status server)) (action payload)), d) \<and>
         details (InvalidStateTransitionError (status_value (s_status server)) (action payload)) =
           Some [(''current_status'', status_value (s_status server)), (''action'', action payload)] \<and>
         status_code (InvalidStateTransitionError (status_value (s_status server)) (action payload)) = 409"
proof -
  have "map_of (dict_get VALID_TRANSITIONS (s_status server) []) (action payload) = None"
    using notab by (auto simp: VALID_TRANSITIONS_get)
  then have "\<not> dict_in (action payload) (dict_get VALID_TRANSITIONS (s_status server) [])"
    by (simp add: dict_in_def)
  then show ?thesis
    using sel live by (simp add: ServerService_perform_action_def Mock_get_server_eq Let_def)
qed

text \<open>
  The theorem at the sample data: starting the server \<open>s5\<close>, which is in BUILD.
\<close>

theorem perform_action_invalid_transition_witness:
  "ServerService_perform_action 99 ''s5'' \<lparr>action = ''start'', a_flavor_id = None\<rparr> sample_db =
     (Inl (InvalidStateTransitionError ''BUILD'' ''start''), sample_db) \<and>
   details (InvalidStateTransitionError ''BUILD'' ''start'') =
     Some [(''current_status'', ''BUILD''), (''action'', ''start'')]"
proof -
  have h1: "s_status (sample_server ''s5'' BUILD 40) \<noteq> DELETED" by simp
  have h2: "map_of (dict_get VALID_TRANSITIONS (s_status (sample_server ''s5'' BUILD 40)) [])
              (action \<lparr>action = ''start'', a_flavor_id = None\<rparr>) = None \<or>
            s_status (sample_server ''s5'' BUILD 40) \<in> {BUILD, REBOOT, RESIZE, ERROR}"
    by simp
  show ?thesis
    using perform_action_invalid_transition [OF sample_select_s5 h1 h2, of 99] by simp
qed

text \<open>
  C3. For a server whose status is DELETED: \<open>get\<close> and \<open>perform_action\<close> fail
  with \<^verbatim>\<open>ServerNotFoundError\<close>, \<open>update\<close> fails with the distinct
  \<^verbatim>\<open>ServerDeletedError\<close>, and \<open>list\<close> leaves the server out of the records: every
  window within the 64-bit range is answered, no answer holds the server, and the
  answer (records and total) is that of the table without that row.
\<close>

theorem deleted_server_invisible:
  assumes sel: "select_server d server_id = Some server"
    and del: "s_status server = DELETED"
  shows "ServerService_get server_id d = Inl (ServerNotFoundError server_id) \<and>
         ServerService_perform_action now server_id payload d =
           (Inl (ServerNotFoundError server_id), d) \<and>
         ServerService_update now server_id upd d = (Inl (ServerDeletedError server_id), d) \<and>
         ServerDeletedError server_id \<noteq> ServerNotFoundError server_id \<and>
         (limit < 2 ^ 63 \<and> offset < 2 ^ 63 \<longrightarrow>
            (\<exists>records n. ServerService_list limit offset d = Inr (records, n))) \<and>
         (\<forall>records n. ServerService_list limit offset d = Inr (records, n) \<longrightarrow>
            server \<notin> set records) \<and>
         ServerService_list limit offset (d\<lparr>servers := removeAll server (servers d)\<rparr>) =
           ServerService_list limit offset d"
proof -
  have g: "ServerService_get server_id d = Inl (ServerNotFoundError server_id)"
    using sel del by (simp add: ServerService_get_def Mock_get_server_eq)
  have p: "ServerService_perform_action now server_id payload d =
             (Inl (ServerNotFoundError server_id), d)"
    using sel del by (simp add: ServerService_perform_action_def Mock_get_server_eq)
  have u: "ServerService_update now server_id upd d = (Inl (ServerDeletedError server_id), d)"
    using sel del by (simp add: ServerService_update_def Mock_get_server_eq)
  have "server \<notin> set (filter (\<lambda>s. s_status s \<noteq> DELETED) (servers d))"
    using del by simp
  then have out: "server \<notin> set (take limit (drop offset
               (sort_key (\<lambda>s. - s_created_at s) (filter (\<lambda>s. s_status s \<noteq> DELETED) (servers d)))))"
    by (auto dest!: in_set_takeD in_set_dropD)
  have l0: "limit < 2 ^ 63 \<and> offset < 2 ^ 63 \<longrightarrow>
            (\<exists>records n. ServerService_list limit offset d = Inr (records, n))"
    by (simp add: ServerService_list_ok)
  have l1: "\<forall>records n. ServerService_list limit offset d = Inr (records, n) \<longrightarrow>
            server \<notin> set records"
    using out ServerService_list_Inr [of limit offset d] by blast
  have l2: "ServerService_list limit offset (d\<lparr>servers := removeAll server (servers d)\<rparr>) =
              ServerService_list limit offset d"
    using del by (simp add: ServerService_list_def Mock_list_servers_def filter_removeAll_skip)
  show ?thesis using g p u l0 l1 l2 by simp
qed

text \<open>
  The theorem at the sample data: \<open>s3\<close> is DELETED, and the total counts the four
  other servers.
\<close>

theorem deleted_server_invisible_witness:
  "ServerService_get ''s3'' sample_db = Inl (ServerNotFoundError ''s3'') \<and>
   ServerService_perform_action 99 ''s3'' \<lparr>action = ''stop'', a_flavor_id = None\<rparr> sample_db =
     (Inl (ServerNotFoundError ''s3''), sample_db) \<and>
   ServerService_update 99 ''s3'' \<lparr>u_name = Some ''new''\<rparr> sample_db =
     (Inl (ServerDeletedError ''s3''), sample_db) \<and>
   (\<exists>records. ServerService_list 10 0 sample_db = Inr (records, 4) \<and>
      sample_server ''s3'' DELETED 20 \<notin> set records)"
proof -
  have h: "s_status (sample_server ''s3'' DELETED 20) = DELETED" by simp
  note t = deleted_server_invisible [OF sample_select_s3 h, of 99
        "\<lparr>action = ''stop'', a_flavor_id = None\<rparr>" "\<lparr>u_name = Some ''new''\<rparr>" 10 0]
  have r: "(10::nat) < 2 ^ 63 \<and> (0::nat) < 2 ^ 63" by simp
  from t r obtain records n where l: "ServerService_list 10 0 sample_db = Inr (records, n)"
    by blast
  have n: "n = 4"
    using ServerService_list_Inr [OF l] by (simp add: sample_db_def)
  have out: "sample_server ''s3'' DELETED 20 \<notin> set records"
    using t l by blast
  have a: "ServerService_get ''s3'' sample_db = Inl (ServerNotFoundError ''s3'')"
    using t by blast
  have b: "ServerService_perform_action 99 ''s3'' \<lparr>action = ''stop'', a_flavor_id = None\<rparr> sample_db =
     (Inl (ServerNotFoundError ''s3''), sample_db)"
    using t by blast
  have c: "ServerService_update 99 ''s3'' \<lparr>u_name = Some ''new''\<rparr> sample_db =
     (Inl (ServerDeletedError ''s3''), sample_db)"
    using t by blast
  show ?thesis using a b c l n out by blast
qed

text \<open>
  C4. Existence is checked before state: for an ID that is absent from the store,
  \<open>get\<close>, \<open>update\<close>, \<open>delete\<close> and \<open>perform_action\<close> fail with
  \<^verbatim>\<open>ServerNotFoundError\<close>, whatever the payload or the requested action.
\<close>

theorem missing_id_not_found:
  assumes "select_server d server_id = None"
  shows "ServerService_get server_id d = Inl (ServerNotFoundError server_id) \<and>
         ServerService_update now server_id upd d = (Inl (ServerNotFoundError server_id), d) \<and>
         ServerService_delete now server_id d = (Inl (ServerNotFoundError server_id), d) \<and>
         ServerService_perform_action now server_id payload d =
           (Inl (ServerNotFoundError server_id), d)"
  using assms
  by (simp add: ServerService_get_def ServerService_update_def ServerService_delete_def
      ServerService_perform_action_def Mock_get_server_eq)

text \<open>
  The theorem at the sample data, with an action that no status allows.
\<close>

theorem missing_id_not_found_witness:
  "ServerService_get ''zz'' sample_db = Inl (ServerNotFoundError ''zz'') \<and>
   ServerService_update 99 ''zz'' \<lparr>u_name = None\<rparr> sample_db =
     (Inl (ServerNotFoundError ''zz''), sample_db) \<and>
   ServerService_delete 99 ''zz'' sample_db = (Inl (ServerNotFoundError ''zz''), sample_db) \<and>
   ServerService_perform_action 99 ''zz'' \<lparr>action = ''fly'', a_flavor_id = Some ''bad''\<rparr> sample_db =
     (Inl (ServerNotFoundError ''zz''), sample_db)"
  using missing_id_not_found [OF sample_select_none] by simp

text \<open>
  C5. \<open>delete\<close> on an existing server that is not DELETED succeeds, sets the status
  to DELETED and stamps the update timestamp, leaving every other server as it was; a
  second \<open>delete\<close> of the same ID fails with \<^verbatim>\<open>ServerNotFoundError\<close>.
\<close>

theorem delete_once:
  assumes sel: "select_server d server_id = Some server"
    and live: "s_status server \<noteq> DELETED"
  shows "ServerService_delete now server_id d =
           (Inr (), flush_server server_id (server\<lparr>s_status := DELETED, s_updated_at := now\<rparr>) d) \<and>
         select_server (snd (ServerService_delete now server_id d)) server_id =
           Some (server\<lparr>s_status := DELETED, s_updated_at := now\<rparr>) \<and>
         (\<forall>other. other \<noteq> server_id \<longrightarrow>
            select_server (snd (ServerService_delete now server_id d)) other = select_server d other) \<and>
         ServerService_delete later server_id (snd (ServerService_delete now server_id d)) =
           (Inl (ServerNotFoundError server_id), snd (ServerService_delete now server_id d))"
proof -
  let ?s = "server\<lparr>s_status := DELETED, s_updated_at := now\<rparr>"
  let ?d = "flush_server server_id ?s d"
  have sid: "s_id ?s = server_id"
    using select_server_id [OF sel] by simp
  have first: "ServerService_delete now server_id d = (Inr (), ?d)"
    using sel live
    by (simp add: ServerService_delete_def Mock_delete_server_def Mock_get_server_eq Let_def)
  have stored: "select_server ?d server_id = Some ?s"
    using sel sid by (rule select_flush)
  have others: "\<forall>other. other \<noteq> server_id \<longrightarrow> select_server ?d other = select_server d other"
    using sid by (simp add: select_flush_other)
  have second: "ServerService_delete later server_id ?d = (Inl (ServerNotFoundError server_id), ?d)"
    using stored by (simp add: ServerService_delete_def Mock_get_server_eq)
  show ?thesis using first stored others second by simp
qed

text \<open>
  The theorem at the sample data: deleting \<open>s1\<close> twice.
\<close>

theorem delete_once_witness:
  "fst (ServerService_delete 99 ''s1'' sample_db) = Inr () \<and>
   select_server (snd (ServerService_delete 99 ''s1'' sample_db)) ''s1'' =
     Some ((sample_server ''s1'' ACTIVE 10)\<lparr>s_status := DELETED, s_updated_at := 99\<rparr>) \<and>
   fst (ServerService_delete 100 ''s1'' (snd (ServerService_delete 99 ''s1'' sample_db))) =
     Inl (ServerNotFoundError ''s1'')"
proof -
  have h: "s_status (sample_server ''s1'' ACTIVE 10) \<noteq> DELETED" by simp
  show ?thesis
    using delete_once [OF sample_select_s1 h, of 99 100] by (elim conjE) simp
qed

text \<open>
  The synthetic address: \<^verbatim>\<open>randint\<close> stays within its bounds, \<^verbatim>\<open>str\<close> writes decimal
  digits, and the address drawn is printed as 10.b.c.e with octets below 256.
\<close>

lemma randint_range: "a \<le> b \<Longrightarrow> a \<le> randint a b r \<and> randint a b r \<le> b"
proof -
  assume ab: "a \<le> b"
  have "r mod (b - a + 1) \<le> b - a" by simp
  then show ?thesis using ab unfolding randint_def by linarith
qed

lemma random_ip_range:
  "0x0A000001 \<le> randint 0x0A000001 0x0AFFFFFF r \<and> randint 0x0A000001 0x0AFFFFFF r \<le> 0x0AFFFFFF"
  by (rule randint_range) simp

lemma str_nat_10: "str_nat 10 = ''10''"
  by (simp add: str_nat.simps)

lemma digit_in: "k < 10 \<Longrightarrow> ''0123456789'' ! k \<in> set ''0123456789''"
  by (rule nth_mem) simp

lemma str_nat_digits: "set (str_nat n) \<subseteq> set ''0123456789''"
proof (induction n rule: str_nat.induct)
  case (1 n)
  show ?case
  proof (cases "n < 10")
    case True
    then show ?thesis using digit_in [of n] by (subst str_nat.simps) simp
  next
    case False
    have "n mod 10 < 10" by simp
    then show ?thesis
      using 1 False digit_in [of "n mod 10"] by (subst str_nat.simps) simp
  qed
qed

lemma random_ip_dotted:
  "\<exists>b c e. b < 256 \<and> c < 256 \<and> e < 256 \<and>
     random_ip r = ''10.'' @ str_nat b @ ''.'' @ str_nat c @ ''.'' @ str_nat e"
proof -
  let ?n = "randint 0x0A000001 0x0AFFFFFF r"
  have "?n div 16777216 = 10"
    by (rule div_nat_eqI) (use random_ip_range [of r] in simp_all)
  then have "?n div 2 ^ 24 = 10" by simp
  then have "random_ip r = ''10.'' @ str_nat (?n div 2 ^ 16 mod 256) @ ''.'' @
               str_nat (?n div 2 ^ 8 mod 256) @ ''.'' @ str_nat (?n mod 256)"
    by (simp add: random_ip_def str_IPv4Address_def str_nat_10)
  moreover have "?n div 2 ^ 16 mod 256 < 256" "?n div 2 ^ 8 mod 256 < 256" "?n mod 256 < 256"
    by simp_all
  ultimately show ?thesis by blast
qed

lemma Mock_create_server_fresh:
  assumes "select_server d uuid = None"
  shows "Mock_create_server uuid r now name flavor_id image_id d =
     (Inr \<lparr>s_id = uuid, s_name = name, s_status = ACTIVE, s_flavor_id = flavor_id,
           s_image_id = image_id, s_ip_address = Some (random_ip r),
           s_created_at = now, s_updated_at = now\<rparr>,
      d\<lparr>servers := servers d @
           [\<lparr>s_id = uuid, s_name = name, s_status = ACTIVE, s_flavor_id = flavor_id,
             s_image_id = image_id, s_ip_address = Some (random_ip r),
             s_created_at = now, s_updated_at = now\<rparr>]\<rparr>)"
  using assms by (simp add: Mock_create_server_def Let_def server_to_record_eq)

text \<open>
  C6 (as amended). \<open>create\<close> fails with \<^verbatim>\<open>FlavorNotFoundError\<close> when the flavor ID
  does not resolve; it fails with \<^verbatim>\<open>ImageNotFoundError\<close> when the flavor ID resolves
  and the image ID does not; and otherwise, when the generated server ID is not yet in
  the store, it appends exactly one server record, whose status is ACTIVE and whose IP
  address is a dotted quad 10.b.c.e with decimal octets below 256, an address of
  10.0.0.0/8. When the generated ID is already in the store, the insert fails and the
  store is unchanged.
\<close>

theorem create_checks_and_inserts:
  "(Mock_get_flavor d (c_flavor_id payload) = None \<longrightarrow>
      ServerService_create uuid r now payload d =
        (Inl (FlavorNotFoundError (c_flavor_id payload)), d)) \<and>
   (Mock_get_flavor d (c_flavor_id payload) \<noteq> None \<and>
    Mock_get_image d (c_image_id payload) = None \<longrightarrow>
      ServerService_create uuid r now payload d =
        (Inl (ImageNotFoundError (c_image_id payload)), d)) \<and>
   (Mock_get_flavor d (c_flavor_id payload) \<noteq> None \<and>
    Mock_get_image d (c_image_id payload) \<noteq> None \<and> select_server d uuid = None \<longrightarrow>
      (\<exists>server b c e.
         ServerService_create uuid r now payload d =
           (Inr server, d\<lparr>servers := servers d @ [server]\<rparr>) \<and>
         s_id server = uuid \<and> s_name server = c_name payload \<and>
         s_flavor_id server = c_flavor_id payload \<and> s_image_id server = c_image_id payload \<and>
         s_status server = ACTIVE \<and>
         s_created_at server = now \<and> s_updated_at server = now \<and>
         b < 256 \<and> c < 256 \<and> e < 256 \<and>
         s_ip_address server = Some (''10.'' @ str_nat b @ ''.'' @ str_nat c @ ''.'' @ str_nat e) \<and>
         set (str_nat b) \<union> set (str_nat c) \<union> set (str_nat e) \<subseteq> set ''0123456789'')) \<and>
   (Mock_get_flavor d (c_flavor_id payload) \<noteq> None \<and>
    Mock_get_image d (c_image_id payload) \<noteq> None \<and> select_server d uuid \<noteq> None \<longrightarrow>
      ServerService_create uuid r now payload d = (Inl IntegrityError, d))"
proof (intro conjI impI)
  assume "Mock_get_flavor d (c_flavor_id payload) = None"
  then show "ServerService_create uuid r now payload d =
      (Inl (FlavorNotFoundError (c_flavor_id payload)), d)"
    by (simp add: ServerService_create_def)
next
  assume "Mock_get_flavor d (c_flavor_id payload) \<noteq> None \<and>
    Mock_get_image d (c_image_id payload) = None"
  then show "ServerService_create uuid r now payload d =
      (Inl (ImageNotFoundError (c_image_id payload)), d)"
    by (auto simp: ServerService_create_def)
next
  assume a: "Mock_get_flavor d (c_flavor_id payload) \<noteq> None \<and>
    Mock_get_image d (c_image_id payload) \<noteq> None \<and> select_server d uuid = None"
  let ?s = "\<lparr>s_id = uuid, s_name = c_name payload, s_status = ACTIVE,
             s_flavor_id = c_flavor_id payload, s_image_id = c_image_id payload,
             s_ip_address = Some (random_ip r), s_created_at = now, s_updated_at = now\<rparr>"
  obtain b c e where oct: "b < 256" "c < 256" "e < 256"
    and ip: "random_ip r = ''10.'' @ str_nat b @ ''.'' @ str_nat c @ ''.'' @ str_nat e"
    using random_ip_dotted [of r] by blast
  have dig: "set (str_nat b) \<union> set (str_nat c) \<union> set (str_nat e) \<subseteq> set ''0123456789''"
    using str_nat_digits [of b] str_nat_digits [of c] str_nat_digits [of e] by blast
  have cr: "ServerService_create uuid r now payload d = (Inr ?s, d\<lparr>servers := servers d @ [?s]\<rparr>)"
    using a by (auto simp: ServerService_create_def Mock_create_server_fresh)
  have fields: "s_id ?s = uuid \<and> s_name ?s = c_name payload \<and>
         s_flavor_id ?s = c_flavor_id payload \<and> s_image_id ?s = c_image_id payload \<and>
         s_status ?s = ACTIVE \<and> s_created_at ?s = now \<and> s_updated_at ?s = now"
    by simp
  have addr: "s_ip_address ?s = Some (''10.'' @ str_nat b @ ''.'' @ str_nat c @ ''.'' @ str_nat e)"
    using ip by simp
  show "\<exists>server b c e.
         ServerService_create uuid r now payload d =
           (Inr server, d\<lparr>servers := servers d @ [server]\<rparr>) \<and>
         s_id server = uuid \<and> s_name server = c_name payload \<and>
         s_flavor_id server = c_flavor_id payload \<and> s_image_id server = c_image_id payload \<and>
         s_status server = ACTIVE \<and>
         s_created_at server = now \<and> s_updated_at server = now \<and>
         b < 256 \<and> c < 256 \<and> e < 256 \<and>
         s_ip_address server = Some (''10.'' @ str_nat b @ ''.'' @ str_nat c @ ''.'' @ str_nat e) \<and>
         set (str_nat b) \<union> set (str_nat c) \<union> set (str_nat e) \<subseteq> set ''0123456789''"
    using cr fields addr oct dig by blast
next
  assume a: "Mock_get_flavor d (c_flavor_id payload) \<noteq> None \<and>
    Mock_get_image d (c_image_id payload) \<noteq> None \<and> select_server d uuid \<noteq> None"
  then show "ServerService_create uuid r now payload d = (Inl IntegrityError, d)"
    by (auto simp: ServerService_create_def Mock_create_server_def Let_def)
qed

lemma sample_get_flavor_f1: "Mock_get_flavor sample_db ''f1'' \<noteq> None"
  by (simp add: Mock_get_flavor_def sample_db_def sample_flavors_def)

lemma sample_get_image_i1: "Mock_get_image sample_db ''i1'' \<noteq> None"
  by (simp add: Mock_get_image_def sample_db_def sample_images_def)

lemma sample_get_image_bad: "Mock_get_image sample_db ''bad'' = None"
  by (simp add: Mock_get_image_def sample_db_def sample_images_def)

lemma sample_select_s9: "select_server sample_db ''s9'' = None"
  by (simp add: select_server_def sample_db_def sample_server_def)

text \<open>
  The theorem at the sample data: an unknown flavor, an unknown image, and a creation
  that succeeds.
\<close>

theorem create_checks_and_inserts_witness:
  "ServerService_create ''s9'' 77 123 \<lparr>c_name = ''web'', c_flavor_id = ''bad'', c_image_id = ''i1''\<rparr>
     sample_db = (Inl (FlavorNotFoundError ''bad''), sample_db) \<and>
   ServerService_create ''s9'' 77 123 \<lparr>c_name = ''web'', c_flavor_id = ''f1'', c_image_id = ''bad''\<rparr>
     sample_db = (Inl (ImageNotFoundError ''bad''), sample_db) \<and>
   (\<exists>server b c e.
      ServerService_create ''s9'' 77 123 \<lparr>c_name = ''web'', c_flavor_id = ''f1'', c_image_id = ''i1''\<rparr>
        sample_db = (Inr server, sample_db\<lparr>servers := servers sample_db @ [server]\<rparr>) \<and>
      s_status server = ACTIVE \<and> b < 256 \<and> c < 256 \<and> e < 256 \<and>
      s_ip_address server = Some (''10.'' @ str_nat b @ ''.'' @ str_nat c @ ''.'' @ str_nat e))"
proof -
  have a: "ServerService_create ''s9'' 77 123
             \<lparr>c_name = ''web'', c_flavor_id = ''bad'', c_image_id = ''i1''\<rparr> sample_db =
           (Inl (FlavorNotFoundError ''bad''), sample_db)"
    using create_checks_and_inserts [of sample_db
        "\<lparr>c_name = ''web'', c_flavor_id = ''bad'', c_image_id = ''i1''\<rparr>" "''s9''" 77 123]
      sample_get_flavor_bad by simp
  have b: "ServerService_create ''s9'' 77 123
             \<lparr>c_name = ''web'', c_flavor_id = ''f1'', c_image_id = ''bad''\<rparr> sample_db =
           (Inl (ImageNotFoundError ''bad''), sample_db)"
    using create_checks_and_inserts [of sample_db
        "\<lparr>c_name = ''web'', c_flavor_id = ''f1'', c_image_id = ''bad''\<rparr>" "''s9''" 77 123]
      sample_get_flavor_f1 sample_get_image_bad by simp
  have c: "\<exists>server b c e.
      ServerService_create ''s9'' 77 123 \<lparr>c_name = ''web'', c_flavor_id = ''f1'', c_image_id = ''i1''\<rparr>
        sample_db = (Inr server, sample_db\<lparr>servers := servers sample_db @ [server]\<rparr>) \<and>
      s_status server = ACTIVE \<and> b < 256 \<and> c < 256 \<and> e < 256 \<and>
      s_ip_address server = Some (''10.'' @ str_nat b @ ''.'' @ str_nat c @ ''.'' @ str_nat e)"
  proof -
    have h: "Mock_get_flavor sample_db (c_flavor_id \<lparr>c_name = ''web'', c_flavor_id = ''f1'', c_image_id = ''i1''\<rparr>) \<noteq> None \<and>
             Mock_get_image sample_db (c_image_id \<lparr>c_name = ''web'', c_flavor_id = ''f1'', c_image_id = ''i1''\<rparr>) \<noteq> None \<and>
             select_server sample_db ''s9'' = None"
      using sample_get_flavor_f1 sample_get_image_i1 sample_select_s9 by simp
    from create_checks_and_inserts [of sample_db
        "\<lparr>c_name = ''web'', c_flavor_id = ''f1'', c_image_id = ''i1''\<rparr>" "''s9''" 77 123] h
    show ?thesis by blast
  qed
  show ?thesis using a b c by blast
qed

text \<open>
  The claim as first stated fails twice. With neither ID resolving, the image ID does
  not resolve and yet the error is \<^verbatim>\<open>FlavorNotFoundError\<close>; and with both IDs
  resolving, a generated server ID that the store already holds makes the insert fail,
  so that no record is inserted.
\<close>

theorem create_counterexample:
  "Mock_get_image sample_db ''bad'' = None \<and>
   ServerService_create ''s9'' 77 123 \<lparr>c_name = ''web'', c_flavor_id = ''bad'', c_image_id = ''bad''\<rparr>
     sample_db = (Inl (FlavorNotFoundError ''bad''), sample_db) \<and>
   Mock_get_flavor sample_db_uuid ''f1'' \<noteq> None \<and> Mock_get_image sample_db_uuid ''i1'' \<noteq> None \<and>
   ServerService_create sample_uuid 77 123 \<lparr>c_name = ''web'', c_flavor_id = ''f1'', c_image_id = ''i1''\<rparr>
     sample_db_uuid = (Inl IntegrityError, sample_db_uuid)"
proof -
  have a: "ServerService_create ''s9'' 77 123
             \<lparr>c_name = ''web'', c_flavor_id = ''bad'', c_image_id = ''bad''\<rparr> sample_db =
           (Inl (FlavorNotFoundError ''bad''), sample_db)"
    by (simp add: ServerService_create_def sample_get_flavor_bad)
  have f: "Mock_get_flavor sample_db_uuid ''f1'' \<noteq> None"
    by (simp add: Mock_get_flavor_def sample_db_uuid_def sample_flavors_def)
  have i: "Mock_get_image sample_db_uuid ''i1'' \<noteq> None"
    by (simp add: Mock_get_image_def sample_db_uuid_def sample_images_def)
  have s: "select_server sample_db_uuid sample_uuid \<noteq> None"
    by (simp add: select_server_def sample_db_uuid_def)
  have b: "ServerService_create sample_uuid 77 123
             \<lparr>c_name = ''web'', c_flavor_id = ''f1'', c_image_id = ''i1''\<rparr> sample_db_uuid =
           (Inl IntegrityError, sample_db_uuid)"
    using f i s by (auto simp: ServerService_create_def Mock_create_server_def Let_def)
  show ?thesis using a f i b sample_get_image_bad by blast
qed

text \<open>
  What a successful action returns: the backend stamps the time, writes the row back
  and changes the flavor only for a resize that carries one.
\<close>

lemma Mock_perform_action_success:
  assumes "select_server d i = Some server"
    and "Mock_perform_action now i act kw d = (Inr r, d')"
  shows "s_updated_at r = now \<and> d' = flush_server i r d \<and> s_id r = i \<and>
         (act \<noteq> ''resize'' \<or> \<not> dict_in ''flavor_id'' kw \<longrightarrow> s_flavor_id r = s_flavor_id server) \<and>
         (act = ''resize'' \<and> dict_in ''flavor_id'' kw \<longrightarrow> s_flavor_id r = dict_get kw ''flavor_id'' [])"
proof (cases "map_of (dict_get ACTION_TRANSITIONS (s_status server) []) act")
  case None
  then show ?thesis
    using assms by (simp add: Mock_perform_action_def)
next
  case (Some ns)
  have sid: "s_id server = i" using select_server_id [OF assms(1)] by simp
  show ?thesis
    using assms(2) sid unfolding Mock_perform_action_ok [OF assms(1) Some]
    by (cases "act = ''resize'' \<and> dict_in ''flavor_id'' kw") auto
qed

lemma ServerService_perform_action_success:
  assumes sel: "select_server d i = Some server"
    and ok: "ServerService_perform_action now i payload d = (Inr r, d')"
  shows "s_updated_at r = now \<and> d' = flush_server i r d \<and> s_id r = i \<and>
         (action payload \<noteq> ''resize'' \<longrightarrow> s_flavor_id r = s_flavor_id server)"
proof (cases "action payload = ''resize'' \<and> truthy (a_flavor_id payload)")
  case True
  then have "Mock_perform_action now i (action payload)
               [(''flavor_id'', the (a_flavor_id payload))] d = (Inr r, d')"
    using sel ok
    by (simp add: ServerService_perform_action_def Mock_get_server_eq Let_def
        split: if_splits option.splits)
  from Mock_perform_action_success [OF sel this] True show ?thesis by simp
next
  case False
  then have "Mock_perform_action now i (action payload) [] d = (Inr r, d')"
    using sel ok
    by (cases "action payload = ''resize''")
       (simp_all add: ServerService_perform_action_def Mock_get_server_eq Let_def
        split: if_splits)
  from Mock_perform_action_success [OF sel this] show ?thesis
    by (simp add: dict_in_def)
qed

text \<open>
  C7. For \<open>perform_action\<close> with action resize on an ACTIVE server and a supplied
  (non-empty) target flavor ID: if the target does not resolve in the catalog the call
  fails with \<^verbatim>\<open>FlavorNotFoundError\<close> and the store is unchanged; if it resolves, the
  returned server has the target as its flavor and the current time as its update
  timestamp. For every existing server, a successful action other than resize leaves
  the flavor as it was, and every successful action returns, and stores, a server whose
  update timestamp is the current time.
\<close>

theorem resize_flavor_and_timestamp:
  assumes sel: "select_server d server_id = Some server"
  shows "(s_status server = ACTIVE \<and> action payload = ''resize'' \<and>
          a_flavor_id payload = Some target \<and> target \<noteq> [] \<and> Mock_get_flavor d target = None \<longrightarrow>
            ServerService_perform_action now server_id payload d =
              (Inl (FlavorNotFoundError target), d)) \<and>
         (s_status server = ACTIVE \<and> action payload = ''resize'' \<and>
          a_flavor_id payload = Some target \<and> target \<noteq> [] \<and> Mock_get_flavor d target \<noteq> None \<longrightarrow>
            (\<exists>r. ServerService_perform_action now server_id payload d =
                    (Inr r, flush_server server_id r d) \<and>
                  s_flavor_id r = target \<and> s_updated_at r = now \<and> s_status r = ACTIVE)) \<and>
         (\<forall>r d'. ServerService_perform_action now server_id payload d = (Inr r, d') \<and>
                 action payload \<noteq> ''resize'' \<longrightarrow> s_flavor_id r = s_flavor_id server) \<and>
         (\<forall>r d'. ServerService_perform_action now server_id payload d = (Inr r, d') \<longrightarrow>
                 s_updated_at r = now \<and> select_server d' server_id = Some r)"
proof (intro conjI impI allI)
  assume a: "s_status server = ACTIVE \<and> action payload = ''resize'' \<and>
          a_flavor_id payload = Some target \<and> target \<noteq> [] \<and> Mock_get_flavor d target = None"
  then show "ServerService_perform_action now server_id payload d =
              (Inl (FlavorNotFoundError target), d)"
    using sel
    by (simp add: ServerService_perform_action_def Mock_get_server_eq Let_def dict_in_def
        VALID_TRANSITIONS_get)
next
  assume a: "s_status server = ACTIVE \<and> action payload = ''resize'' \<and>
          a_flavor_id payload = Some target \<and> target \<noteq> [] \<and> Mock_get_flavor d target \<noteq> None"
  let ?r = "server\<lparr>s_status := ACTIVE, s_flavor_id := target, s_updated_at := now\<rparr>"
  have bk: "map_of (dict_get ACTION_TRANSITIONS (s_status server) []) (action payload) = Some ACTIVE"
    using a by (simp add: ACTION_TRANSITIONS_get)
  have al: "dict_in ''resize'' (dict_get VALID_TRANSITIONS ACTIVE [])"
    by (simp add: VALID_TRANSITIONS_get dict_in_def)
  have kw: "dict_in ''flavor_id'' [(''flavor_id'', target)]"
    "dict_get [(''flavor_id'', target)] ''flavor_id'' [] = target"
    by (simp_all add: dict_in_def dict_get_def)
  have "ServerService_perform_action now server_id payload d = (Inr ?r, flush_server server_id ?r d)"
    using a sel al kw Mock_perform_action_ok [OF sel bk, of now "[(''flavor_id'', target)]"]
    by (auto simp: ServerService_perform_action_def Mock_get_server_eq Let_def)
  then show "\<exists>r. ServerService_perform_action now server_id payload d =
                    (Inr r, flush_server server_id r d) \<and>
                  s_flavor_id r = target \<and> s_updated_at r = now \<and> s_status r = ACTIVE"
    by (intro exI [of _ ?r]) simp
next
  fix r d'
  assume "ServerService_perform_action now server_id payload d = (Inr r, d') \<and>
          action payload \<noteq> ''resize''"
  then show "s_flavor_id r = s_flavor_id server"
    using ServerService_perform_action_success [OF sel, of now payload r d'] by simp
next
  fix r d'
  assume ok: "ServerService_perform_action now server_id payload d = (Inr r, d')"
  from ServerService_perform_action_success [OF sel ok]
  show "s_updated_at r = now" by simp
next
  fix r d'
  assume ok: "ServerService_perform_action now server_id payload d = (Inr r, d')"
  from ServerService_perform_action_success [OF sel ok]
  have "d' = flush_server server_id r d" and "s_id r = server_id" by simp_all
  then show "select_server d' server_id = Some r"
    using sel by (simp add: select_flush)
qed

text \<open>
  Stopping the sample server \<open>s1\<close>.
\<close>

lemma sample_stop_s1:
  "ServerService_perform_action 99 ''s1'' \<lparr>action = ''stop'', a_flavor_id = None\<rparr> sample_db =
     (Inr ((sample_server ''s1'' ACTIVE 10)\<lparr>s_status := SHUTOFF, s_updated_at := 99\<rparr>),
      flush_server ''s1'' ((sample_server ''s1'' ACTIVE 10)\<lparr>s_status := SHUTOFF, s_updated_at := 99\<rparr>)
        sample_db)"
proof -
  have bk: "map_of (dict_get ACTION_TRANSITIONS (s_status (sample_server ''s1'' ACTIVE 10)) []) ''stop'' =
              Some SHUTOFF"
    by (simp add: ACTION_TRANSITIONS_get)
  have al: "dict_in ''stop'' (dict_get VALID_TRANSITIONS ACTIVE [])"
    by (simp add: VALID_TRANSITIONS_get dict_in_def)
  show ?thesis
    using al Mock_perform_action_ok [OF sample_select_s1 bk, of 99 "[]"]
    by (simp add: ServerService_perform_action_def Mock_get_server_eq sample_select_s1 Let_def)
qed

text \<open>
  The theorem at the sample data: a resize of \<open>s1\<close> to an unknown flavor, a resize
  to the flavor \<open>f2\<close>, and a stop.
\<close>

theorem resize_flavor_and_timestamp_witness:
  "ServerService_perform_action 99 ''s1'' \<lparr>action = ''resize'', a_flavor_id = Some ''bad''\<rparr> sample_db =
     (Inl (FlavorNotFoundError ''bad''), sample_db) \<and>
   (\<exists>r. ServerService_perform_action 99 ''s1'' \<lparr>action = ''resize'', a_flavor_id = Some ''f2''\<rparr>
           sample_db = (Inr r, flush_server ''s1'' r sample_db) \<and>
         s_flavor_id r = ''f2'' \<and> s_updated_at r = 99 \<and> s_status r = ACTIVE) \<and>
   (\<exists>r d'. ServerService_perform_action 99 ''s1'' \<lparr>action = ''stop'', a_flavor_id = None\<rparr>
           sample_db = (Inr r, d') \<and>
         s_flavor_id r = s_flavor_id (sample_server ''s1'' ACTIVE 10) \<and> s_updated_at r = 99 \<and>
         select_server d' ''s1'' = Some r)"
proof -
  have a: "ServerService_perform_action 99 ''s1'' \<lparr>action = ''resize'', a_flavor_id = Some ''bad''\<rparr>
             sample_db = (Inl (FlavorNotFoundError ''bad''), sample_db)"
    using resize_flavor_and_timestamp [OF sample_select_s1,
        of "\<lparr>action = ''resize'', a_flavor_id = Some ''bad''\<rparr>" "''bad''" 99]
      sample_get_flavor_bad by simp
  have b: "\<exists>r. ServerService_perform_action 99 ''s1'' \<lparr>action = ''resize'', a_flavor_id = Some ''f2''\<rparr>
           sample_db = (Inr r, flush_server ''s1'' r sample_db) \<and>
         s_flavor_id r = ''f2'' \<and> s_updated_at r = 99 \<and> s_status r = ACTIVE"
    using resize_flavor_and_timestamp [OF sample_select_s1,
        of "\<lparr>action = ''resize'', a_flavor_id = Some ''f2''\<rparr>" "''f2''" 99]
      sample_get_flavor_f2 by simp
  have c: "\<exists>r d'. ServerService_perform_action 99 ''s1'' \<lparr>action = ''stop'', a_flavor_id = None\<rparr>
           sample_db = (Inr r, d') \<and>
         s_flavor_id r = s_flavor_id (sample_server ''s1'' ACTIVE 10) \<and> s_updated_at r = 99 \<and>
         select_server d' ''s1'' = Some r"
    using resize_flavor_and_timestamp [OF sample_select_s1,
        of "\<lparr>action = ''stop'', a_flavor_id = None\<rparr>" "[]" 99]
      sample_stop_s1 by auto
  show ?thesis using a b c by blast
qed

section \<open>Listing and pagination\<close>

lemma PaginatedResponse_build_next:
  "p_next_offset (PaginatedResponse_build items N L O') = (if O' + L < N then Some (O' + L) else None)"
  by (simp add: PaginatedResponse_build_def)

lemma list_servers_page:
  assumes "list_servers limit offset d = Inr page"
  shows "1 \<le> limit \<and> limit \<le> 100 \<and> 0 \<le> offset \<and>
         p_total page = int (length (filter (\<lambda>s. s_status s \<noteq> DELETED) (servers d))) \<and>
         p_next_offset page =
           (if offset + limit < int (length (filter (\<lambda>s. s_status s \<noteq> DELETED) (servers d)))
            then Some (offset + limit) else None)"
proof -
  from assms obtain lim off where pp: "PaginationParams limit offset = Inr (lim, off)"
    by (auto simp: list_servers_def split: sum.splits)
  then have rng: "1 \<le> limit \<and> limit \<le> 100 \<and> 0 \<le> offset" and lo: "lim = nat limit" "off = nat offset"
    by (auto simp: PaginationParams_def split: if_splits)
  from assms pp obtain records n where l: "ServerService_list lim off d = Inr (records, n)"
    and pg: "page = PaginatedResponse_build records (int n) (int lim) (int off)"
    by (auto simp: list_servers_def split: sum.splits)
  have "n = length (filter (\<lambda>s. s_status s \<noteq> DELETED) (servers d))"
    using ServerService_list_Inr [OF l] by simp
  then show ?thesis using rng lo pg by (simp add: PaginatedResponse_build_def)
qed

text \<open>
  C8. Pagination law. For a response built from a total of \<open>N\<close> records, a limit
  \<open>L\<close> and an offset \<open>O'\<close>: the next offset is null exactly when
  \<open>O' + L \<ge> N\<close> and is \<open>O' + L\<close> otherwise, and the reported total is \<open>N\<close>.
  For every page of \<^verbatim>\<open>GET /servers\<close> the total is the number of servers that are not
  DELETED, whatever the limit and offset, and the next offset follows the same law.
\<close>

theorem pagination_law:
  "(p_next_offset (PaginatedResponse_build items N L O') = None \<longleftrightarrow> O' + L \<ge> N) \<and>
   (O' + L < N \<longrightarrow> p_next_offset (PaginatedResponse_build items N L O') = Some (O' + L)) \<and>
   p_total (PaginatedResponse_build items N L O') = N \<and>
   (list_servers limit offset d = Inr page \<longrightarrow>
      p_total page = int (length (filter (\<lambda>s. s_status s \<noteq> DELETED) (servers d))) \<and>
      (p_next_offset page = None \<longleftrightarrow> offset + limit \<ge> p_total page) \<and>
      (offset + limit < p_total page \<longrightarrow> p_next_offset page = Some (offset + limit)))"
proof (intro conjI impI)
  show "(p_next_offset (PaginatedResponse_build items N L O') = None) = (N \<le> O' + L)"
    by (simp add: PaginatedResponse_build_next)
  show "p_total (PaginatedResponse_build items N L O') = N"
    by (simp add: PaginatedResponse_build_def)
next
  assume "O' + L < N"
  then show "p_next_offset (PaginatedResponse_build items N L O') = Some (O' + L)"
    by (simp add: PaginatedResponse_build_next)
next
  assume a: "list_servers limit offset d = Inr page"
  note p = list_servers_page [OF a]
  from p show t: "p_total page = int (length (filter (\<lambda>s. s_status s \<noteq> DELETED) (servers d)))"
    by simp
  from p show "(p_next_offset page = None) = (p_total page \<le> offset + limit)"
    by simp
  assume "offset + limit < p_total page"
  with p show "p_next_offset page = Some (offset + limit)"
    by simp
qed

text \<open>
  The second and third newest servers of the sample data.
\<close>

lemma sample_list_2_1:
  "list_servers 2 1 sample_db =
     Inr (PaginatedResponse_build [sample_server ''s2'' SHUTOFF 30, sample_server ''s1'' ACTIVE 10] 4 2 1)"
  by (simp add: list_servers_def PaginationParams_def ServerService_list_ok
      sample_db_def sample_server_def)

text \<open>
  The theorem at concrete pages: a page with a successor, the last page, and a page
  of the sample data.
\<close>

theorem pagination_law_witness:
  "p_next_offset (PaginatedResponse_build [1::nat, 2] 4 2 1) = Some 3 \<and>
   p_next_offset (PaginatedResponse_build [3::nat, 4] 4 2 2) = None \<and>
   (\<exists>page. list_servers 2 1 sample_db = Inr page \<and> p_total page = 4 \<and>
      p_next_offset page = Some 3)"
proof -
  have a: "p_next_offset (PaginatedResponse_build [1::nat, 2] 4 2 1) = Some 3"
    using pagination_law [of "[1::nat, 2]" 4 2 1] by simp
  have b: "p_next_offset (PaginatedResponse_build [3::nat, 4] 4 2 2) = None"
    using pagination_law [of "[3::nat, 4]" 4 2 2] by simp
  have n: "length (filter (\<lambda>s. s_status s \<noteq> DELETED) (servers sample_db)) = 4"
    by (simp add: sample_db_def)
  have c: "\<exists>page. list_servers 2 1 sample_db = Inr page \<and> p_total page = 4 \<and>
      p_next_offset page = Some 3"
    using pagination_law [of "[]::nat list" 0 0 0 2 1 sample_db
        "PaginatedResponse_build [sample_server ''s2'' SHUTOFF 30, sample_server ''s1'' ACTIVE 10] 4 2 1"]
      sample_list_2_1 n by simp
  show ?thesis using a b c by blast
qed





section \<open>The request schema and the state machine\<close>

text \<open>
  A validated request keeps its action, which is one of \<^verbatim>\<open>ActionType\<close>.
\<close>

lemma ServerAction_validate_action:
  "ServerAction_validate act fid = Inr payload \<Longrightarrow> action payload = act \<and> act \<in> set ActionType"
  by (auto simp: ServerAction_validate_def validate_resize_requires_flavor_def split: if_splits)

lemma VERIFY_RESIZE_rejects:
  assumes "select_server d server_id = Some server"
    and "s_status server = VERIFY_RESIZE"
    and "action payload \<noteq> ''confirm_resize''"
  shows "ServerService_perform_action now server_id payload d =
           (Inl (InvalidStateTransitionError ''VERIFY_RESIZE'' (action payload)), d)"
  using assms
  by (simp add: ServerService_perform_action_def Mock_get_server_eq Let_def dict_in_def
      VALID_TRANSITIONS_get)

text \<open>
  C10. The request schema accepts exactly the actions start, stop, reboot and resize
  (each with a suitable flavor field), so no validated \<^verbatim>\<open>ServerAction\<close> carries
  \<^verbatim>\<open>confirm_resize\<close>; and on a server in VERIFY_RESIZE every validated action is
  rejected with \<^verbatim>\<open>InvalidStateTransitionError\<close>, so that the action endpoint only
  ever answers such a server with a validation error or an invalid transition.
\<close>

theorem confirm_resize_unreachable:
  "(\<exists>fid payload. ServerAction_validate act fid = Inr payload) = (act \<in> set ActionType) \<and>
   ServerAction_validate ''confirm_resize'' fid = Inl ValidationError \<and>
   (ServerAction_validate act fid = Inr payload \<longrightarrow>
      action payload \<in> {''start'', ''stop'', ''reboot'', ''resize''} \<and>
      action payload \<noteq> ''confirm_resize'') \<and>
   (select_server d server_id = Some server \<and> s_status server = VERIFY_RESIZE \<longrightarrow>
      (ServerAction_validate act fid = Inr payload \<longrightarrow>
         ServerService_perform_action now server_id payload d =
           (Inl (InvalidStateTransitionError ''VERIFY_RESIZE'' (action payload)), d)) \<and>
      (server_action now server_id act fid d = (Inl ValidationError, d) \<or>
       server_action now server_id act fid d =
         (Inl (InvalidStateTransitionError ''VERIFY_RESIZE'' act), d)))"
proof (intro conjI impI)
  show "(\<exists>fid payload. ServerAction_validate act fid = Inr payload) = (act \<in> set ActionType)"
  proof
    assume "\<exists>fid payload. ServerAction_validate act fid = Inr payload"
    then show "act \<in> set ActionType" using ServerAction_validate_action by blast
  next
    assume a: "act \<in> set ActionType"
    have "ServerAction_validate act (if act = ''resize'' then Some ''f'' else None) =
            Inr \<lparr>action = act, a_flavor_id = (if act = ''resize'' then Some ''f'' else None)\<rparr>"
      using a by (simp add: ServerAction_validate_def validate_resize_requires_flavor_def)
    then show "\<exists>fid payload. ServerAction_validate act fid = Inr payload" by blast
  qed
  show "ServerAction_validate ''confirm_resize'' fid = Inl ValidationError"
    by (simp add: ServerAction_validate_def ActionType_def)
next
  assume v: "ServerAction_validate act fid = Inr payload"
  from ServerAction_validate_action [OF v]
  show "action payload \<in> {''start'', ''stop'', ''reboot'', ''resize''}"
    by (simp add: ActionType_def)
  from ServerAction_validate_action [OF v]
  show "action payload \<noteq> ''confirm_resize''"
    by (simp add: ActionType_not_confirm)
next
  assume s: "select_server d server_id = Some server \<and> s_status server = VERIFY_RESIZE"
    and v: "ServerAction_validate act fid = Inr payload"
  from ServerAction_validate_action [OF v]
  have "action payload \<noteq> ''confirm_resize''" by (simp add: ActionType_not_confirm)
  with s show "ServerService_perform_action now server_id payload d =
           (Inl (InvalidStateTransitionError ''VERIFY_RESIZE'' (action payload)), d)"
    by (simp add: VERIFY_RESIZE_rejects)
next
  assume s: "select_server d server_id = Some server \<and> s_status server = VERIFY_RESIZE"
  show "server_action now server_id act fid d = (Inl ValidationError, d) \<or>
       server_action now server_id act fid d =
         (Inl (InvalidStateTransitionError ''VERIFY_RESIZE'' act), d)"
  proof (cases "ServerAction_validate act fid")
    case (Inl e)
    then have "e = ValidationError"
      by (auto simp: ServerAction_validate_def validate_resize_requires_flavor_def split: if_splits)
    with Inl show ?thesis by (simp add: server_action_def)
  next
    case (Inr p)
    from ServerAction_validate_action [OF Inr]
    have a: "action p = act" and "action p \<noteq> ''confirm_resize''"
      by (simp_all add: ActionType_not_confirm)
    with s have "ServerService_perform_action now server_id p d =
           (Inl (InvalidStateTransitionError ''VERIFY_RESIZE'' (action p)), d)"
      by (simp add: VERIFY_RESIZE_rejects)
    with Inr a show ?thesis by (simp add: server_action_def)
  qed
qed

text \<open>
  The theorem at the sample data: \<open>s4\<close> is in VERIFY_RESIZE.
\<close>

theorem confirm_resize_unreachable_witness:
  "ServerAction_validate ''stop'' None = Inr \<lparr>action = ''stop'', a_flavor_id = None\<rparr> \<and>
   ServerService_perform_action 99 ''s4'' \<lparr>action = ''stop'', a_flavor_id = None\<rparr> sample_db =
     (Inl (InvalidStateTransitionError ''VERIFY_RESIZE'' ''stop''), sample_db) \<and>
   server_action 99 ''s4'' ''confirm_resize'' None sample_db = (Inl ValidationError, sample_db)"
proof -
  have v: "ServerAction_validate ''stop'' None = Inr \<lparr>action = ''stop'', a_flavor_id = None\<rparr>"
    by (simp add: ServerAction_validate_def validate_resize_requires_flavor_def ActionType_def)
  have h: "s_status (sample_server ''s4'' VERIFY_RESIZE 5) = VERIFY_RESIZE" by simp
  have a: "ServerService_perform_action 99 ''s4'' \<lparr>action = ''stop'', a_flavor_id = None\<rparr> sample_db =
     (Inl (InvalidStateTransitionError ''VERIFY_RESIZE'' ''stop''), sample_db)"
    using confirm_resize_unreachable [of "''stop''" None "\<lparr>action = ''stop'', a_flavor_id = None\<rparr>"
        sample_db "''s4''" "sample_server ''s4'' VERIFY_RESIZE 5" 99] v h sample_select_s4
    by simp
  have b: "server_action 99 ''s4'' ''confirm_resize'' None sample_db = (Inl ValidationError, sample_db)"
    using confirm_resize_unreachable [of "''confirm_resize''" None "\<lparr>action = ''stop'', a_flavor_id = None\<rparr>"
        sample_db "''s4''" "sample_server ''s4'' VERIFY_RESIZE 5" 99] h sample_select_s4
    by (simp add: server_action_def)
  show ?thesis using v a b by blast
qed

end
